theory Spec2Isabelle
  imports Complex_Main
begin

section \<open>Numbers\<close>

text \<open>
  The simulator computes on JavaScript numbers. They are modelled as reals with exact
  arithmetic: \<open>Math.max\<close>, \<open>Math.min\<close>, \<open>Math.exp\<close>, \<open>Math.log\<close>, \<open>Math.sinh\<close>,
  \<open>Math.sin\<close>, \<open>Math.sign\<close> and \<open>Math.PI\<close> are \<open>max\<close>, \<open>min\<close>, \<open>exp\<close>, \<open>ln\<close>, \<open>sinh\<close>,
  \<open>sin\<close>, \<open>sgn\<close> and \<open>pi\<close>. Rounding, \<open>NaN\<close> and the infinities have no counterpart:
  where JavaScript would divide by zero, take the logarithm of a non-positive number or
  raise a negative base to a fractional power, the theorems below carry the hypotheses
  that keep the computation away from it, or do not depend on the value.
\<close>

definition Math_pow :: "real \<Rightarrow> real \<Rightarrow> real" where
  \<comment> \<open>\<open>Math.pow(x, y)\<close>: 1 for a zero exponent, the signed power of a negative base for an
      integral exponent, the real power otherwise.\<close>
  "Math_pow x y =
     (if y = 0 then 1
      else if x < 0 \<and> y \<in> \<int> then (if even \<lfloor>y\<rfloor> then (- x) powr y else - ((- x) powr y))
      else x powr y)"

definition js_rem :: "real \<Rightarrow> real \<Rightarrow> real" where
  \<comment> \<open>The remainder operator \<open>a % b\<close>: the quotient is truncated towards zero, so the
      result has the sign of the dividend.\<close>
  "js_rem a b =
     a - b * of_int (if 0 \<le> a / b then \<lfloor>a / b\<rfloor> else \<lceil>a / b\<rceil>)"

section \<open>Memristor models\<close>

subsection \<open>BiolekMemristor\<close>

record BiolekMemristor =
  Biolek_mu_v :: real
  Biolek_D :: real
  Biolek_R_ON :: real
  Biolek_R_OFF :: real
  Biolek_w :: real
  Biolek_p :: real
  Biolek_M :: real
  Biolek_W :: real

definition Biolek_updateMemristance :: "BiolekMemristor \<Rightarrow> BiolekMemristor" where
  "Biolek_updateMemristance this =
     (let this = this\<lparr>Biolek_M :=
            Biolek_R_ON this * (Biolek_w this / Biolek_D this)
            + Biolek_R_OFF this * (1 - (Biolek_w this / Biolek_D this))\<rparr>
      in this\<lparr>Biolek_W := 1 / Biolek_M this\<rparr>)"

definition Biolek_constructor ::
  "real \<Rightarrow> real \<Rightarrow> real \<Rightarrow> real \<Rightarrow> real option \<Rightarrow> real \<Rightarrow> BiolekMemristor" where
  \<comment> \<open>\<open>w_init\<close> is \<open>None\<close> for \<open>null\<close>; the fields \<open>M\<close> and \<open>W\<close> do not exist before
      \<open>_updateMemristance\<close> assigns them.\<close>
  "Biolek_constructor mu_v D R_ON R_OFF w_init p =
     Biolek_updateMemristance
       \<lparr>Biolek_mu_v = mu_v, Biolek_D = D, Biolek_R_ON = R_ON, Biolek_R_OFF = R_OFF,
        Biolek_w = (case w_init of Some w0 \<Rightarrow> max 0 (min w0 D) | None \<Rightarrow> D / 2),
        Biolek_p = p, Biolek_M = 0, Biolek_W = 0\<rparr>"

definition Biolek_stepFunction :: "real \<Rightarrow> real" where
  "Biolek_stepFunction i = (if i \<ge> 0 then 1 else 0)"

definition Biolek_windowFunction :: "BiolekMemristor \<Rightarrow> real \<Rightarrow> real \<Rightarrow> real" where
  "Biolek_windowFunction this x i =
     1 - Math_pow (x - Biolek_stepFunction (- i)) (2 * Biolek_p this)"

definition Biolek_getCurrent :: "BiolekMemristor \<Rightarrow> real \<Rightarrow> real" where
  "Biolek_getCurrent this V = V / Biolek_M this"

definition Biolek_updateState :: "BiolekMemristor \<Rightarrow> real \<Rightarrow> real \<Rightarrow> BiolekMemristor" where
  "Biolek_updateState this V dt =
     (let i = Biolek_getCurrent this V;
          f_w = Biolek_windowFunction this (Biolek_w this / Biolek_D this) i;
          dw_dt = Biolek_mu_v this * (Biolek_R_ON this / Biolek_D this) * i * f_w;
          this = this\<lparr>Biolek_w := Biolek_w this + dw_dt * dt\<rparr>;
          this = this\<lparr>Biolek_w := max 0 (min (Biolek_w this) (Biolek_D this))\<rparr>
      in Biolek_updateMemristance this)"

subsection \<open>JoglekarMemristor\<close>

record JoglekarMemristor =
  Joglekar_mu_v :: real
  Joglekar_D :: real
  Joglekar_R_ON :: real
  Joglekar_R_OFF :: real
  Joglekar_w :: real
  Joglekar_p :: real
  Joglekar_M :: real
  Joglekar_W :: real

definition Joglekar_updateMemristance :: "JoglekarMemristor \<Rightarrow> JoglekarMemristor" where
  "Joglekar_updateMemristance this =
     (let this = this\<lparr>Joglekar_M :=
            Joglekar_R_ON this * (Joglekar_w this / Joglekar_D this)
            + Joglekar_R_OFF this * (1 - (Joglekar_w this / Joglekar_D this))\<rparr>
      in this\<lparr>Joglekar_W := 1 / Joglekar_M this\<rparr>)"

definition Joglekar_constructor ::
  "real \<Rightarrow> real \<Rightarrow> real \<Rightarrow> real \<Rightarrow> real option \<Rightarrow> real \<Rightarrow> JoglekarMemristor" where
  "Joglekar_constructor mu_v D R_ON R_OFF w_init p =
     Joglekar_updateMemristance
       \<lparr>Joglekar_mu_v = mu_v, Joglekar_D = D, Joglekar_R_ON = R_ON, Joglekar_R_OFF = R_OFF,
        Joglekar_w = (case w_init of Some w0 \<Rightarrow> max 0 (min w0 D) | None \<Rightarrow> D / 2),
        Joglekar_p = p, Joglekar_M = 0, Joglekar_W = 0\<rparr>"

definition Joglekar_windowFunction :: "JoglekarMemristor \<Rightarrow> real \<Rightarrow> real" where
  "Joglekar_windowFunction this x = 1 - Math_pow (2 * x - 1) (2 * Joglekar_p this)"

definition Joglekar_getCurrent :: "JoglekarMemristor \<Rightarrow> real \<Rightarrow> real" where
  "Joglekar_getCurrent this V = V / Joglekar_M this"

definition Joglekar_updateState ::
  "JoglekarMemristor \<Rightarrow> real \<Rightarrow> real \<Rightarrow> JoglekarMemristor" where
  "Joglekar_updateState this V dt =
     (let i = Joglekar_getCurrent this V;
          f_w = Joglekar_windowFunction this (Joglekar_w this / Joglekar_D this);
          dw_dt = Joglekar_mu_v this * (Joglekar_R_ON this / Joglekar_D this) * i * f_w;
          this = this\<lparr>Joglekar_w := Joglekar_w this + dw_dt * dt\<rparr>;
          this = this\<lparr>Joglekar_w := max 0 (min (Joglekar_w this) (Joglekar_D this))\<rparr>
      in Joglekar_updateMemristance this)"

subsection \<open>LinearIonDriftMemristor\<close>

record LinearIonDriftMemristor =
  Linear_mu_v :: real
  Linear_D :: real
  Linear_R_ON :: real
  Linear_R_OFF :: real
  Linear_w :: real
  Linear_M :: real
  Linear_W :: real

definition Linear_updateMemristance ::
  "LinearIonDriftMemristor \<Rightarrow> LinearIonDriftMemristor" where
  "Linear_updateMemristance this =
     (let this = this\<lparr>Linear_M :=
            Linear_R_ON this * (Linear_w this / Linear_D this)
            + Linear_R_OFF this * (1 - (Linear_w this / Linear_D this))\<rparr>
      in this\<lparr>Linear_W := 1 / Linear_M this\<rparr>)"

definition Linear_constructor ::
  "real \<Rightarrow> real \<Rightarrow> real \<Rightarrow> real \<Rightarrow> real option \<Rightarrow> LinearIonDriftMemristor" where
  "Linear_constructor mu_v D R_ON R_OFF w_init =
     Linear_updateMemristance
       \<lparr>Linear_mu_v = mu_v, Linear_D = D, Linear_R_ON = R_ON, Linear_R_OFF = R_OFF,
        Linear_w = (case w_init of Some w0 \<Rightarrow> max 0 (min w0 D) | None \<Rightarrow> D / 2),
        Linear_M = 0, Linear_W = 0\<rparr>"

definition Linear_getCurrent :: "LinearIonDriftMemristor \<Rightarrow> real \<Rightarrow> real" where
  "Linear_getCurrent this V = V / Linear_M this"

definition Linear_updateState ::
  "LinearIonDriftMemristor \<Rightarrow> real \<Rightarrow> real \<Rightarrow> LinearIonDriftMemristor" where
  "Linear_updateState this V dt =
     (let i = Linear_getCurrent this V;
          dw_dt = (Linear_mu_v this * Linear_R_ON this / Linear_D this) * i;
          this = this\<lparr>Linear_w := Linear_w this + dw_dt * dt\<rparr>;
          this = this\<lparr>Linear_w := max 0 (min (Linear_w this) (Linear_D this))\<rparr>
      in Linear_updateMemristance this)"

subsection \<open>VTEAMMemristor\<close>

record VTEAMMemristor =
  VTEAM_k_off :: real
  VTEAM_k_on :: real
  VTEAM_alpha_off :: real
  VTEAM_alpha_on :: real
  VTEAM_w_off :: real
  VTEAM_w_on :: real
  VTEAM_w :: real
  VTEAM_a_off :: real
  VTEAM_a_on :: real
  VTEAM_w_c :: real
  VTEAM_u_off :: real
  VTEAM_u_on :: real
  VTEAM_R_on :: real
  VTEAM_R_off :: real
  VTEAM_M :: real
  VTEAM_W :: real

definition VTEAM_f_off :: "VTEAMMemristor \<Rightarrow> real \<Rightarrow> real" where
  "VTEAM_f_off this w = exp (- exp ((w - VTEAM_a_off this) / VTEAM_w_c this))"

definition VTEAM_f_on :: "VTEAMMemristor \<Rightarrow> real \<Rightarrow> real" where
  "VTEAM_f_on this w = exp (- exp (- (w - VTEAM_a_on this) / VTEAM_w_c this))"

definition VTEAM_updateMemristance :: "VTEAMMemristor \<Rightarrow> VTEAMMemristor" where
  "VTEAM_updateMemristance this =
     (let lambda = ln (VTEAM_R_off this / VTEAM_R_on this);
          this = this\<lparr>VTEAM_M :=
            VTEAM_R_on this
            * exp ((lambda / (VTEAM_w_off this - VTEAM_w_on this))
                   * (VTEAM_w this - VTEAM_w_on this))\<rparr>
      in this\<lparr>VTEAM_W := 1 / VTEAM_M this\<rparr>)"

definition VTEAM_constructor ::
  "real \<Rightarrow> real \<Rightarrow> real \<Rightarrow> real \<Rightarrow> real \<Rightarrow> real \<Rightarrow> real option \<Rightarrow> real \<Rightarrow> real \<Rightarrow> real
   \<Rightarrow> real \<Rightarrow> real \<Rightarrow> real \<Rightarrow> real \<Rightarrow> VTEAMMemristor" where
  \<comment> \<open>The simulator passes \<open>null\<close> for \<open>w_init\<close>; \<open>Math.max\<close> converts it to 0.\<close>
  "VTEAM_constructor k_off k_on alpha_off alpha_on w_off w_on w_init a_off a_on w_c
       u_off u_on R_on R_off =
     VTEAM_updateMemristance
       \<lparr>VTEAM_k_off = k_off, VTEAM_k_on = k_on,
        VTEAM_alpha_off = alpha_off, VTEAM_alpha_on = alpha_on,
        VTEAM_w_off = w_off, VTEAM_w_on = w_on,
        VTEAM_w = min w_off (max w_on (case w_init of Some w0 \<Rightarrow> w0 | None \<Rightarrow> 0)),
        VTEAM_a_off = a_off, VTEAM_a_on = a_on, VTEAM_w_c = w_c,
        VTEAM_u_off = u_off, VTEAM_u_on = u_on,
        VTEAM_R_on = R_on, VTEAM_R_off = R_off, VTEAM_M = 0, VTEAM_W = 0\<rparr>"

definition VTEAM_updateState :: "VTEAMMemristor \<Rightarrow> real \<Rightarrow> real \<Rightarrow> VTEAMMemristor" where
  "VTEAM_updateState this u dt =
     (let dw_dt =
            (if 0 < VTEAM_u_off this \<and> u > VTEAM_u_off this
             then VTEAM_k_off this
                  * Math_pow (u / VTEAM_u_off this - 1) (VTEAM_alpha_off this)
                  * VTEAM_f_off this (VTEAM_w this)
             else if u < VTEAM_u_on this \<and> VTEAM_u_on this < 0
             then VTEAM_k_on this
                  * Math_pow (u / VTEAM_u_on this - 1) (VTEAM_alpha_on this)
                  * VTEAM_f_on this (VTEAM_w this)
             else 0);
          this = this\<lparr>VTEAM_w :=
            min (VTEAM_w_off this) (max (VTEAM_w_on this) (VTEAM_w this + dw_dt * dt))\<rparr>
      in VTEAM_updateMemristance this)"

definition VTEAM_getCurrent :: "VTEAMMemristor \<Rightarrow> real \<Rightarrow> real" where
  "VTEAM_getCurrent this u =
     (let lambda = ln (VTEAM_R_off this / VTEAM_R_on this);
          expTerm = exp ((- lambda / (VTEAM_w_off this - VTEAM_w_on this))
                         * (VTEAM_w this - VTEAM_w_on this))
      in (u / VTEAM_R_on this) * expTerm)"

subsection \<open>MMSMemristor\<close>

record MMSMemristor =
  MMS_R_on :: real
  MMS_R_off :: real
  MMS_U_on :: real
  MMS_U_off :: real
  MMS_tau :: real
  MMS_T :: real
  MMS_q :: real
  MMS_k :: real
  MMS_x :: real
  MMS_M :: real
  MMS_W :: real

definition MMS_updateMemristance :: "MMSMemristor \<Rightarrow> MMSMemristor" where
  "MMS_updateMemristance this =
     (let this = this\<lparr>MMS_W :=
            MMS_x this / MMS_R_on this + (1 - MMS_x this) / MMS_R_off this\<rparr>
      in this\<lparr>MMS_M := 1 / MMS_W this\<rparr>)"

definition MMS_constructor ::
  "real \<Rightarrow> real \<Rightarrow> real \<Rightarrow> real \<Rightarrow> real \<Rightarrow> real \<Rightarrow> real \<Rightarrow> MMSMemristor" where
  "MMS_constructor R_on R_off U_on U_off tau T x_init =
     MMS_updateMemristance
       \<lparr>MMS_R_on = R_on, MMS_R_off = R_off, MMS_U_on = U_on, MMS_U_off = U_off,
        MMS_tau = tau, MMS_T = T,
        MMS_q = 1602176634 / 10 ^ 28, MMS_k = 1380649 / 10 ^ 29,
        MMS_x = max 0 (min x_init 1), MMS_M = 0, MMS_W = 0\<rparr>"

definition MMS_updateState :: "MMSMemristor \<Rightarrow> real \<Rightarrow> real \<Rightarrow> MMSMemristor" where
  "MMS_updateState this V dt =
     (let alpha = dt / MMS_tau this;
          beta = MMS_q this / (MMS_k this * MMS_T this);
          P_on = alpha / (1 + exp (- beta * (V - MMS_U_on this)));
          P_off = alpha * (1 - 1 / (1 + exp (- beta * (V + MMS_U_off this))));
          N_on = P_on * (1 - MMS_x this);
          N_off = P_off * MMS_x this;
          this = this\<lparr>MMS_x := MMS_x this + (N_on - N_off)\<rparr>;
          this = this\<lparr>MMS_x := max 0 (min (MMS_x this) 1)\<rparr>
      in MMS_updateMemristance this)"

definition MMS_getCurrent :: "MMSMemristor \<Rightarrow> real \<Rightarrow> real" where
  "MMS_getCurrent this V = V * MMS_W this"

subsection \<open>YakopcicMemristor\<close>

record YakopcicMemristor =
  Yakopcic_A_p :: real
  Yakopcic_A_n :: real
  Yakopcic_U_p :: real
  Yakopcic_U_n :: real
  Yakopcic_alpha_p :: real
  Yakopcic_alpha_n :: real
  Yakopcic_x_p :: real
  Yakopcic_x_n :: real
  Yakopcic_a1 :: real
  Yakopcic_a2 :: real
  Yakopcic_b :: real
  Yakopcic_x_on :: real
  Yakopcic_x :: real
  Yakopcic_M :: real
  Yakopcic_W :: real

definition Yakopcic_updateMemristance :: "YakopcicMemristor \<Rightarrow> YakopcicMemristor" where
  "Yakopcic_updateMemristance this =
     (let this = this\<lparr>Yakopcic_W :=
            Yakopcic_a1 this * Yakopcic_x this * sinh (Yakopcic_b this)\<rparr>
      in this\<lparr>Yakopcic_M := 1 / Yakopcic_W this\<rparr>)"

definition Yakopcic_constructor ::
  "real \<Rightarrow> real \<Rightarrow> real \<Rightarrow> real \<Rightarrow> real \<Rightarrow> real \<Rightarrow> real \<Rightarrow> real \<Rightarrow> real \<Rightarrow> real \<Rightarrow> real
   \<Rightarrow> real \<Rightarrow> real \<Rightarrow> YakopcicMemristor" where
  "Yakopcic_constructor A_p A_n U_p U_n alpha_p alpha_n x_p x_n a1 a2 b x_init x_on =
     Yakopcic_updateMemristance
       \<lparr>Yakopcic_A_p = A_p, Yakopcic_A_n = A_n, Yakopcic_U_p = U_p, Yakopcic_U_n = U_n,
        Yakopcic_alpha_p = alpha_p, Yakopcic_alpha_n = alpha_n,
        Yakopcic_x_p = x_p, Yakopcic_x_n = x_n,
        Yakopcic_a1 = a1, Yakopcic_a2 = a2, Yakopcic_b = b,
        Yakopcic_x_on = x_on, Yakopcic_x = min 1 (max x_on x_init),
        Yakopcic_M = 0, Yakopcic_W = 0\<rparr>"

definition Yakopcic_g :: "YakopcicMemristor \<Rightarrow> real \<Rightarrow> real" where
  "Yakopcic_g this u =
     (if u > Yakopcic_U_p this then Yakopcic_A_p this * (exp u - exp (Yakopcic_U_p this))
      else if u < - Yakopcic_U_n this
      then - Yakopcic_A_n this * (exp (- u) - exp (Yakopcic_U_n this))
      else 0)"

definition Yakopcic_f_p :: "YakopcicMemristor \<Rightarrow> real \<Rightarrow> real" where
  "Yakopcic_f_p this x =
     (if x \<ge> Yakopcic_x_p this
      then (let wp = (Yakopcic_x_p this - x) / (1 - Yakopcic_x_p this) + 1
            in exp (- Yakopcic_alpha_p this * (x - Yakopcic_x_p this)) * wp)
      else 1)"

definition Yakopcic_f_n :: "YakopcicMemristor \<Rightarrow> real \<Rightarrow> real" where
  "Yakopcic_f_n this x =
     (if x \<le> (1 - Yakopcic_x_n this)
      then (let wn = x / (1 - Yakopcic_x_n this)
            in exp (Yakopcic_alpha_n this * (x + Yakopcic_x_n this - 1)) * wn)
      else 1)"

definition Yakopcic_f :: "YakopcicMemristor \<Rightarrow> real \<Rightarrow> real \<Rightarrow> real" where
  "Yakopcic_f this x u = (if u \<ge> 0 then Yakopcic_f_p this x else Yakopcic_f_n this x)"

definition Yakopcic_updateState ::
  "YakopcicMemristor \<Rightarrow> real \<Rightarrow> real \<Rightarrow> YakopcicMemristor" where
  "Yakopcic_updateState this u dt =
     (let dx = Yakopcic_g this u * Yakopcic_f this (Yakopcic_x this) u;
          this = this\<lparr>Yakopcic_x :=
            min 1 (max (Yakopcic_x_on this) (Yakopcic_x this + dx * dt))\<rparr>
      in Yakopcic_updateMemristance this)"

definition Yakopcic_getCurrent :: "YakopcicMemristor \<Rightarrow> real \<Rightarrow> real" where
  "Yakopcic_getCurrent this u =
     (if u \<ge> 0 then Yakopcic_a1 this * Yakopcic_x this * sinh (Yakopcic_b this * u)
      else Yakopcic_a2 this * Yakopcic_x this * sinh (Yakopcic_b this * u))"

subsection \<open>The object handed to the simulation\<close>

text \<open>
  The simulation calls \<open>getCurrent\<close> and \<open>updateState\<close> on whichever of the six classes
  it was given; the dynamic dispatch is a case distinction on the class.
\<close>

datatype memristor =
    Biolek BiolekMemristor
  | Joglekar JoglekarMemristor
  | LinearIonDrift LinearIonDriftMemristor
  | VTEAM VTEAMMemristor
  | MMS MMSMemristor
  | Yakopcic YakopcicMemristor

fun getCurrent :: "memristor \<Rightarrow> real \<Rightarrow> real" where
  "getCurrent (Biolek m) V = Biolek_getCurrent m V"
| "getCurrent (Joglekar m) V = Joglekar_getCurrent m V"
| "getCurrent (LinearIonDrift m) V = Linear_getCurrent m V"
| "getCurrent (VTEAM m) V = VTEAM_getCurrent m V"
| "getCurrent (MMS m) V = MMS_getCurrent m V"
| "getCurrent (Yakopcic m) V = Yakopcic_getCurrent m V"

fun updateState :: "memristor \<Rightarrow> real \<Rightarrow> real \<Rightarrow> memristor" where
  "updateState (Biolek m) V dt = Biolek (Biolek_updateState m V dt)"
| "updateState (Joglekar m) V dt = Joglekar (Joglekar_updateState m V dt)"
| "updateState (LinearIonDrift m) V dt = LinearIonDrift (Linear_updateState m V dt)"
| "updateState (VTEAM m) V dt = VTEAM (VTEAM_updateState m V dt)"
| "updateState (MMS m) V dt = MMS (MMS_updateState m V dt)"
| "updateState (Yakopcic m) V dt = Yakopcic (Yakopcic_updateState m V dt)"

fun memristance :: "memristor \<Rightarrow> real" where
  \<comment> \<open>The field \<open>M\<close> of the object.\<close>
  "memristance (Biolek m) = Biolek_M m"
| "memristance (Joglekar m) = Joglekar_M m"
| "memristance (LinearIonDrift m) = Linear_M m"
| "memristance (VTEAM m) = VTEAM_M m"
| "memristance (MMS m) = MMS_M m"
| "memristance (Yakopcic m) = Yakopcic_M m"

fun conductance :: "memristor \<Rightarrow> real" where
  \<comment> \<open>The field \<open>W\<close> of the object.\<close>
  "conductance (Biolek m) = Biolek_W m"
| "conductance (Joglekar m) = Joglekar_W m"
| "conductance (LinearIonDrift m) = Linear_W m"
| "conductance (VTEAM m) = VTEAM_W m"
| "conductance (MMS m) = MMS_W m"
| "conductance (Yakopcic m) = Yakopcic_W m"


fun domain_lo :: "memristor \<Rightarrow> real" where
  "domain_lo (Biolek m) = 0"
| "domain_lo (Joglekar m) = 0"
| "domain_lo (LinearIonDrift m) = 0"
| "domain_lo (VTEAM m) = VTEAM_w_on m"
| "domain_lo (MMS m) = 0"
| "domain_lo (Yakopcic m) = Yakopcic_x_on m"

fun domain_hi :: "memristor \<Rightarrow> real" where
  "domain_hi (Biolek m) = Biolek_D m"
| "domain_hi (Joglekar m) = Joglekar_D m"
| "domain_hi (LinearIonDrift m) = Linear_D m"
| "domain_hi (VTEAM m) = VTEAM_w_off m"
| "domain_hi (MMS m) = 1"
| "domain_hi (Yakopcic m) = 1"


fun advance_all :: "memristor \<Rightarrow> real list \<Rightarrow> real \<Rightarrow> memristor" where
  \<comment> \<open>The state after one \<open>updateState\<close> call for each voltage, in order.\<close>
  "advance_all m [] dt = m"
| "advance_all m (v # vs) dt = advance_all (updateState m v dt) vs dt"

inductive reachable :: "memristor \<Rightarrow> bool" where
  \<comment> \<open>The objects a run can hold: freshly constructed, then advanced any number of times.\<close>
  new_Biolek: "reachable (Biolek (Biolek_constructor mu_v D R_ON R_OFF w_init p))"
| new_Joglekar: "reachable (Joglekar (Joglekar_constructor mu_v D R_ON R_OFF w_init p))"
| new_Linear: "reachable (LinearIonDrift (Linear_constructor mu_v D R_ON R_OFF w_init))"
| new_VTEAM:
    "reachable (VTEAM (VTEAM_constructor k_off k_on alpha_off alpha_on w_off w_on w_init
       a_off a_on w_c u_off u_on R_on R_off))"
| new_MMS: "reachable (MMS (MMS_constructor R_on R_off U_on U_off tau T x_init))"
| new_Yakopcic:
    "reachable (Yakopcic (Yakopcic_constructor A_p A_n U_p U_n alpha_p alpha_n x_p x_n
       a1 a2 b x_init x_on))"
| advance: "reachable m \<Longrightarrow> reachable (updateState m V dt)"


fun positive_parameters :: "memristor \<Rightarrow> bool" where
  \<comment> \<open>Parameters for which the memristance law divides by a positive number and
      multiplies positive factors.\<close>
  "positive_parameters (Biolek m) =
     (0 < Biolek_D m \<and> 0 < Biolek_R_ON m \<and> 0 < Biolek_R_OFF m)"
| "positive_parameters (Joglekar m) =
     (0 < Joglekar_D m \<and> 0 < Joglekar_R_ON m \<and> 0 < Joglekar_R_OFF m)"
| "positive_parameters (LinearIonDrift m) =
     (0 < Linear_D m \<and> 0 < Linear_R_ON m \<and> 0 < Linear_R_OFF m)"
| "positive_parameters (VTEAM m) =
     (0 < VTEAM_R_on m \<and> 0 < VTEAM_R_off m \<and> VTEAM_w_on m < VTEAM_w_off m)"
| "positive_parameters (MMS m) = (0 < MMS_R_on m \<and> 0 < MMS_R_off m)"
| "positive_parameters (Yakopcic m) =
     (0 < Yakopcic_a1 m \<and> 0 < Yakopcic_b m \<and> 0 < Yakopcic_x_on m \<and> Yakopcic_x_on m \<le> 1)"

fun memristance_law :: "memristor \<Rightarrow> real" where
  \<comment> \<open>What \<open>_updateMemristance\<close> stores in \<open>M\<close> for the present state.\<close>
  "memristance_law (Biolek m) =
     Biolek_R_ON m * (Biolek_w m / Biolek_D m) + Biolek_R_OFF m * (1 - (Biolek_w m / Biolek_D m))"
| "memristance_law (Joglekar m) =
     Joglekar_R_ON m * (Joglekar_w m / Joglekar_D m)
     + Joglekar_R_OFF m * (1 - (Joglekar_w m / Joglekar_D m))"
| "memristance_law (LinearIonDrift m) =
     Linear_R_ON m * (Linear_w m / Linear_D m) + Linear_R_OFF m * (1 - (Linear_w m / Linear_D m))"
| "memristance_law (VTEAM m) =
     VTEAM_R_on m
     * exp ((ln (VTEAM_R_off m / VTEAM_R_on m) / (VTEAM_w_off m - VTEAM_w_on m))
            * (VTEAM_w m - VTEAM_w_on m))"
| "memristance_law (MMS m) = 1 / (MMS_x m / MMS_R_on m + (1 - MMS_x m) / MMS_R_off m)"
| "memristance_law (Yakopcic m) = 1 / (Yakopcic_a1 m * Yakopcic_x m * sinh (Yakopcic_b m))"

fun well_formed :: "memristor \<Rightarrow> bool" where
  \<comment> \<open>Positive resistances and a domain of positive width, for the classes that have them.\<close>
  "well_formed (Biolek m) =
     (0 < Biolek_D m \<and> 0 < Biolek_R_ON m \<and> 0 < Biolek_R_OFF m)"
| "well_formed (Joglekar m) =
     (0 < Joglekar_D m \<and> 0 < Joglekar_R_ON m \<and> 0 < Joglekar_R_OFF m)"
| "well_formed (LinearIonDrift m) =
     (0 < Linear_D m \<and> 0 < Linear_R_ON m \<and> 0 < Linear_R_OFF m)"
| "well_formed (VTEAM m) =
     (0 < VTEAM_R_on m \<and> 0 < VTEAM_R_off m \<and> VTEAM_w_on m < VTEAM_w_off m)"
| "well_formed (MMS m) = (0 < MMS_R_on m \<and> 0 < MMS_R_off m)"
| "well_formed (Yakopcic m) = True"

fun current_law :: "memristor \<Rightarrow> real \<Rightarrow> real" where
  \<comment> \<open>Ohm's law on the stored memristance for five classes; the hyperbolic-sine law of
      \<open>YakopcicMemristor.getCurrent\<close> for the sixth.\<close>
  "current_law (Yakopcic m) u =
     (if u \<ge> 0 then Yakopcic_a1 m * Yakopcic_x m * sinh (Yakopcic_b m * u)
      else Yakopcic_a2 m * Yakopcic_x m * sinh (Yakopcic_b m * u))"
| "current_law m V = V / memristance m"

section \<open>Waveform generators\<close>

definition generateWaveform :: "string \<Rightarrow> real list \<Rightarrow> real \<Rightarrow> real \<Rightarrow> real list" where
  "generateWaveform type t frequency amplitude =
     (let omega = 2 * pi * frequency in
      if type = ''sine'' then map (\<lambda>time. amplitude * sin (omega * time)) t
      else if type = ''square'' then map (\<lambda>time. amplitude * sgn (sin (omega * time))) t
      else if type = ''triangle'' then
        map (\<lambda>time.
               let phase = js_rem (omega * time) (2 * pi) in
               if phase < pi then amplitude * (2 * phase / pi - 1)
               else amplitude * (3 - 2 * phase / pi)) t
      else if type = ''sawtooth'' then
        map (\<lambda>time.
               let phase = js_rem (omega * time) (2 * pi) in
               amplitude * (2 * phase / (2 * pi) - 1)) t
      else map (\<lambda>time. amplitude * sin (omega * time)) t)"

section \<open>Simulation function\<close>

text \<open>
  The loop of \<open>simulateMemristor\<close>, from index \<open>i\<close> with the currents pushed so far. The
  object is mutated in place by the source; here the loop returns it beside the currents.
\<close>

function simulate_loop ::
  "memristor \<Rightarrow> real list \<Rightarrow> real \<Rightarrow> nat \<Rightarrow> real list \<Rightarrow> real list \<times> memristor" where
  "simulate_loop memristor V_seq dt i I_mem =
     (if i < length V_seq
      then (let current = getCurrent memristor (V_seq ! i);
                I_mem = I_mem @ [current];
                memristor = updateState memristor (V_seq ! i) dt
            in simulate_loop memristor V_seq dt (Suc i) I_mem)
      else (I_mem, memristor))"
  by pat_completeness auto
termination
  by (relation "measure (\<lambda>(memristor, V_seq, dt, i, I_mem). length V_seq - i)") auto

definition simulateMemristor :: "memristor \<Rightarrow> real list \<Rightarrow> real \<Rightarrow> real list \<times> memristor" where
  "simulateMemristor memristor V_seq dt = simulate_loop memristor V_seq dt 0 []"

fun currents_of :: "memristor \<Rightarrow> real list \<Rightarrow> real \<Rightarrow> real list" where
  \<comment> \<open>The current read on each state just before it is advanced.\<close>
  "currents_of m [] dt = []"
| "currents_of m (v # vs) dt = getCurrent m v # currents_of (updateState m v dt) vs dt"

subsection \<open>Two runs\<close>






section \<open>Spec-side notions\<close>

definition real_mod :: "real \<Rightarrow> real \<Rightarrow> real" where
  \<comment> \<open>The mathematical \<open>x mod y\<close> of the waveform formulas, with the floor of the quotient.\<close>
  "real_mod x y = x - y * of_int \<lfloor>x / y\<rfloor>"

section \<open>Objects used as examples\<close>

definition Linear_default :: memristor where
  \<comment> \<open>\<open>new LinearIonDriftMemristor(1e-9, 1e-8, 100, 16e3)\<close>.\<close>
  "Linear_default =
     LinearIonDrift (Linear_constructor (1 / 10 ^ 9) (1 / 10 ^ 8) 100 16000 None)"



definition Yakopcic_default :: memristor where
  \<comment> \<open>The default Yakopcic parameters with the initial state 0.11 the simulator passes.\<close>
  "Yakopcic_default =
     Yakopcic (Yakopcic_constructor 4000 4000 (1 / 2) (1 / 2) 1 5 (3 / 10) (3 / 10)
       (17 / 100) (17 / 100) (5 / 100) (11 / 100) 0)"

section \<open>Properties of the classes\<close>

lemmas class_defs =
  Biolek_constructor_def Biolek_updateMemristance_def Biolek_updateState_def
  Joglekar_constructor_def Joglekar_updateMemristance_def Joglekar_updateState_def
  Linear_constructor_def Linear_updateMemristance_def Linear_updateState_def
  VTEAM_constructor_def VTEAM_updateMemristance_def VTEAM_updateState_def
  MMS_constructor_def MMS_updateMemristance_def MMS_updateState_def
  Yakopcic_constructor_def Yakopcic_updateMemristance_def Yakopcic_updateState_def



subsection \<open>The parameters never change\<close>

lemma updateState_domain_lo [simp]: "domain_lo (updateState m V dt) = domain_lo m"
  by (cases m) (simp_all add: class_defs Let_def)

lemma updateState_domain_hi [simp]: "domain_hi (updateState m V dt) = domain_hi m"
  by (cases m) (simp_all add: class_defs Let_def)

lemma updateState_positive_parameters [simp]:
  "positive_parameters (updateState m V dt) = positive_parameters m"
  by (cases m) (simp_all add: class_defs Let_def)

lemma updateState_well_formed [simp]:
  "well_formed (updateState m V dt) = well_formed m"
  by (cases m) (simp_all add: class_defs Let_def)

lemma advance_all_domain [simp]:
  "domain_lo (advance_all m vs dt) = domain_lo m"
  "domain_hi (advance_all m vs dt) = domain_hi m"
  by (induction vs arbitrary: m) auto

lemma advance_all_params [simp]:
  "positive_parameters (advance_all m vs dt) = positive_parameters m"
  "well_formed (advance_all m vs dt) = well_formed m"
  by (induction vs arbitrary: m) auto

lemma advance_all_append:
  "advance_all m (xs @ ys) dt = advance_all (advance_all m xs dt) ys dt"
  by (induction xs arbitrary: m) auto


subsection \<open>The stored memristance follows the state\<close>

lemma updateState_memristance:
  "memristance (updateState m V dt) = memristance_law (updateState m V dt)"
  by (cases m) (simp_all add: class_defs Let_def)

lemma reachable_memristance:
  assumes "reachable m"
  shows "memristance m = memristance_law m"
  using assms
proof (cases rule: reachable.cases)
  case (advance m' V dt)
  then show ?thesis by (simp only: updateState_memristance)
qed (simp_all add: class_defs Let_def)

lemma reachable_conductance:
  assumes "reachable m"
  shows "conductance m = 1 / memristance m"
  using assms
proof (cases rule: reachable.cases)
  case (advance m' V dt)
  then show ?thesis by (cases m') (simp_all add: class_defs Let_def)
qed (simp_all add: class_defs Let_def)

subsection \<open>The clamp\<close>





subsection \<open>Positive memristance\<close>



subsection \<open>The current\<close>

lemma getCurrent_law:
  assumes "reachable m"
  shows "getCurrent m V = current_law m V"
proof (cases m)
  case (VTEAM x)
  have "memristance m = memristance_law m" using assms by (rule reachable_memristance)
  with VTEAM show ?thesis
    by (simp add: VTEAM_getCurrent_def Let_def exp_minus divide_inverse)
next
  case (MMS x)
  have "conductance m = 1 / memristance m" using assms by (rule reachable_conductance)
  with MMS show ?thesis by (simp add: MMS_getCurrent_def divide_inverse)
qed (simp_all add: Biolek_getCurrent_def Joglekar_getCurrent_def Linear_getCurrent_def
       Yakopcic_getCurrent_def)

lemma getCurrent_zero: "getCurrent m 0 = 0"
  by (cases m)
    (simp_all add: Biolek_getCurrent_def Joglekar_getCurrent_def Linear_getCurrent_def
       VTEAM_getCurrent_def MMS_getCurrent_def Yakopcic_getCurrent_def Let_def)

subsection \<open>The example objects\<close>

lemma reachable_Linear_default: "reachable Linear_default"
  unfolding Linear_default_def by (rule reachable.new_Linear)


lemma well_formed_Linear_default: "well_formed Linear_default"
  by (simp add: Linear_default_def Linear_constructor_def Linear_updateMemristance_def Let_def)

section \<open>Properties of the simulation loop\<close>

declare simulate_loop.simps [simp del]

lemma simulate_loop_drop:
  "simulate_loop m V dt i I =
     (I @ currents_of m (drop i V) dt, advance_all m (drop i V) dt)"
proof (induction m V dt i I rule: simulate_loop.induct)
  case (1 m V dt i I)
  show ?case
  proof (cases "i < length V")
    case True
    then have d: "drop i V = V ! i # drop (Suc i) V"
      by (simp add: Cons_nth_drop_Suc)
    from True 1 show ?thesis
      by (subst simulate_loop.simps) (simp add: d Let_def)
  next
    case False
    then show ?thesis
      by (subst simulate_loop.simps) simp
  qed
qed

lemma simulateMemristor_eq:
  "simulateMemristor m V dt = (currents_of m V dt, advance_all m V dt)"
  by (simp add: simulateMemristor_def simulate_loop_drop)

lemma length_currents_of: "length (currents_of m vs dt) = length vs"
  by (induction vs arbitrary: m) auto

lemma currents_of_nth:
  "k < length vs \<Longrightarrow>
   currents_of m vs dt ! k = getCurrent (advance_all m (take k vs) dt) (vs ! k)"
proof (induction vs arbitrary: m k)
  case Nil
  then show ?case by simp
next
  case (Cons v vs)
  then show ?case by (cases k) auto
qed

section \<open>Properties of the waveform generator\<close>

lemma js_rem_nonneg:
  assumes "0 \<le> a" "0 < b"
  shows "js_rem a b = real_mod a b"
  using assms by (simp add: js_rem_def real_mod_def)

lemma sawtooth_sample:
  assumes "0 < f" "0 \<le> time"
  shows "A * (2 * js_rem (2 * pi * f * time) (2 * pi) / (2 * pi) - 1)
         = A * (real_mod (2 * pi * f * time) (2 * pi) / pi - 1)"
proof -
  from assms have "0 \<le> 2 * pi * f * time" by simp
  then have "js_rem (2 * pi * f * time) (2 * pi) = real_mod (2 * pi * f * time) (2 * pi)"
    by (rule js_rem_nonneg) simp
  then show ?thesis by simp
qed

lemma real_mod_period:
  assumes "0 < f" "0 \<le> s" "s < 1 / f"
  shows "real_mod (2 * pi * f * (real k / f + s)) (2 * pi) = 2 * pi * (f * s)"
proof -
  from assms have fs: "0 \<le> f * s" "f * s < 1"
    by (simp_all add: field_simps)
  from assms have q: "2 * pi * f * (real k / f + s) / (2 * pi) = of_int (int k) + f * s"
    by (simp add: field_simps)
  have "\<lfloor>of_int (int k) + f * s\<rfloor> = int k"
    using fs by (simp add: floor_unique)
  with q have "\<lfloor>2 * pi * f * (real k / f + s) / (2 * pi)\<rfloor> = int k" by simp
  then have "real_mod (2 * pi * f * (real k / f + s)) (2 * pi)
      = 2 * pi * f * (real k / f + s) - 2 * pi * real k"
    by (simp add: real_mod_def)
  also from assms have "\<dots> = 2 * pi * (f * s)" by (simp add: field_simps)
  finally show ?thesis .
qed

section \<open>The claims\<close>




text \<open>
  C2, as stated, fails for the Yakopcic class: its \<open>getCurrent\<close> returns
  \<open>a1 x sinh(b u)\<close>, while the memristance it stores is \<open>1 / (a1 x sinh b)\<close>. At the
  default parameters and \<open>u = 2\<close> the current is \<open>0.17 * 0.11 * sinh 0.1\<close>, and \<open>u / M\<close> is
  \<open>2 * 0.17 * 0.11 * sinh 0.05\<close>.
\<close>

theorem Yakopcic_current_not_ohmic:
  "reachable Yakopcic_default
   \<and> getCurrent Yakopcic_default 2 \<noteq> 2 / memristance Yakopcic_default"
proof
  show "reachable Yakopcic_default"
    unfolding Yakopcic_default_def by (rule reachable.new_Yakopcic)
  have "sinh (2 * (5 / 100 :: real)) = 2 * sinh (5 / 100) * cosh (5 / 100)"
    by (rule sinh_double)
  moreover have "cosh (5 / 100 :: real) \<noteq> 1" by simp
  moreover have "sinh (5 / 100 :: real) \<noteq> 0" by simp
  ultimately have "sinh (5 * 2 / 100 :: real) \<noteq> 2 * sinh (5 / 100)"
    by simp
  then show "getCurrent Yakopcic_default 2 \<noteq> 2 / memristance Yakopcic_default"
    by (simp add: Yakopcic_default_def Yakopcic_constructor_def
          Yakopcic_updateMemristance_def Yakopcic_getCurrent_def Let_def)
qed

text \<open>
  C2, amended: in every reachable state \<open>getCurrent\<close> is a function of the object's
  present fields and the voltage alone. For LinearIonDrift, Biolek, Joglekar, VTEAM and
  MMS it is \<open>V / M\<close> for the stored memristance \<open>M\<close>; for Yakopcic it is
  \<open>a1 x sinh(b V)\<close> for \<open>V \<ge> 0\<close> and \<open>a2 x sinh(b V)\<close> otherwise. In all six classes the
  stored \<open>W\<close> is the reciprocal of the stored \<open>M\<close>, so \<open>V / M = V W\<close>.
\<close>

theorem current_of_state:
  assumes "reachable m"
  shows "getCurrent m V = current_law m V \<and> V / memristance m = V * conductance m"
  using assms by (simp add: getCurrent_law reachable_conductance)

theorem current_of_state_witness:
  "reachable Linear_default
   \<and> getCurrent Linear_default 1 = current_law Linear_default 1
   \<and> 1 / memristance Linear_default = 1 * conductance Linear_default"
  using current_of_state [OF reachable_Linear_default, of 1] reachable_Linear_default
  by blast

text \<open>
  C3: for every index \<open>k\<close> of the voltage sequence, the current \<open>simulateMemristor\<close>
  reports at \<open>k\<close> is \<open>getCurrent\<close> of voltage \<open>k\<close> on the object advanced by exactly the
  voltages before \<open>k\<close>; the object is then advanced by voltage \<open>k\<close>; the object the run
  leaves behind has been advanced by every voltage; and the first current is read on the
  object as it was handed in.
\<close>

theorem simulate_reads_before_advancing:
  assumes "k < length V_seq"
  shows "fst (simulateMemristor m V_seq dt) ! k
           = getCurrent (advance_all m (take k V_seq) dt) (V_seq ! k)
         \<and> advance_all m (take (Suc k) V_seq) dt
           = updateState (advance_all m (take k V_seq) dt) (V_seq ! k) dt
         \<and> snd (simulateMemristor m V_seq dt) = advance_all m V_seq dt
         \<and> fst (simulateMemristor m V_seq dt) ! 0 = getCurrent m (V_seq ! 0)"
proof -
  from assms have "0 < length V_seq" by auto
  then have "currents_of m V_seq dt ! 0
      = getCurrent (advance_all m (take 0 V_seq) dt) (V_seq ! 0)"
    by (rule currents_of_nth)
  with assms show ?thesis
    by (simp add: simulateMemristor_eq currents_of_nth take_Suc_conv_app_nth
          advance_all_append)
qed

theorem simulate_reads_before_advancing_witness:
  "(1::nat) < length [1, 2 :: real]
   \<and> fst (simulateMemristor Linear_default [1, 2] (1 / 10 ^ 9)) ! 1
       = getCurrent (updateState Linear_default 1 (1 / 10 ^ 9)) 2
   \<and> fst (simulateMemristor Linear_default [1, 2] (1 / 10 ^ 9)) ! 0
       = getCurrent Linear_default 1"
  using simulate_reads_before_advancing [of 1 "[1, 2]" Linear_default "1 / 10 ^ 9"]
  by simp




text \<open>
  C5: the LinearIonDrift object with \<open>mu_v = 1e-9\<close>, \<open>D = 1e-8\<close>, \<open>R_ON = 100\<close>,
  \<open>R_OFF = 16000\<close> and no initial state starts at \<open>w = D / 2\<close> with
  \<open>M = (R_ON + R_OFF) / 2\<close>, and one \<open>updateState\<close> with \<open>V = 1\<close>, \<open>dt = 1e-9\<close> leaves
  \<open>w = w_old + mu_v (R_ON / D) (V / M_old) dt\<close>, in exact arithmetic.
\<close>

theorem linear_single_step:
  "Linear_M (Linear_constructor (1 / 10 ^ 9) (1 / 10 ^ 8) 100 16000 None)
     = (100 + 16000) / 2
   \<and> Linear_w (Linear_constructor (1 / 10 ^ 9) (1 / 10 ^ 8) 100 16000 None)
     = (1 / 10 ^ 8) / 2
   \<and> Linear_w (Linear_updateState
         (Linear_constructor (1 / 10 ^ 9) (1 / 10 ^ 8) 100 16000 None) 1 (1 / 10 ^ 9))
     = (1 / 10 ^ 8) / 2
       + (1 / 10 ^ 9) * (100 / (1 / 10 ^ 8)) * (1 / ((100 + 16000) / 2)) * (1 / 10 ^ 9)"
  by (simp add: Linear_constructor_def Linear_updateMemristance_def Linear_updateState_def
        Linear_getCurrent_def Let_def)

text \<open>
  C6: for a waveform type other than the four the generator knows, the generated
  voltages are those of \<open>sine\<close> for the same times, frequency and amplitude.
\<close>

theorem unknown_waveform_is_sine:
  assumes "type \<notin> {''sine'', ''square'', ''triangle'', ''sawtooth''}"
  shows "generateWaveform type t frequency amplitude
         = generateWaveform ''sine'' t frequency amplitude"
  using assms by (simp add: generateWaveform_def)

theorem unknown_waveform_is_sine_witness:
  "''bogus'' \<notin> {''sine'', ''square'', ''triangle'', ''sawtooth''}
   \<and> generateWaveform ''bogus'' [0, 1 / 4] 1 5 = generateWaveform ''sine'' [0, 1 / 4] 1 5"
proof -
  have h: "''bogus'' \<notin> {''sine'', ''square'', ''triangle'', ''sawtooth''}" by simp
  from unknown_waveform_is_sine [OF h, of "[0, 1 / 4]" 1 5] h show ?thesis by blast
qed

text \<open>
  C7: the sawtooth value at every time is \<open>amplitude (\<phi> / \<pi> - 1)\<close> for the phase \<open>\<phi>\<close> the
  remainder operator gives; for a positive frequency and non-negative times \<open>\<phi>\<close> is
  \<open>(2 \<pi> f t) mod 2 \<pi>\<close>, and at the offset \<open>s\<close> into period \<open>k\<close> the value is
  \<open>amplitude (2 f s - 1)\<close>: the ramp starts at \<open>-amplitude\<close>, rises linearly towards
  \<open>+amplitude\<close> and starts again at every period boundary.
\<close>

theorem sawtooth_ramp:
  assumes "0 < frequency" and "\<forall>time \<in> set t. 0 \<le> time"
    and "0 \<le> s" and "s < 1 / frequency"
  shows "generateWaveform ''sawtooth'' ts frequency amplitude
           = map (\<lambda>time. amplitude * (js_rem (2 * pi * frequency * time) (2 * pi) / pi - 1)) ts
         \<and> generateWaveform ''sawtooth'' t frequency amplitude
           = map (\<lambda>time. amplitude * (real_mod (2 * pi * frequency * time) (2 * pi) / pi - 1)) t
         \<and> generateWaveform ''sawtooth'' [real k / frequency + s] frequency amplitude
           = [amplitude * (2 * frequency * s - 1)]"
proof (intro conjI)
  show "generateWaveform ''sawtooth'' ts frequency amplitude
           = map (\<lambda>time. amplitude * (js_rem (2 * pi * frequency * time) (2 * pi) / pi - 1)) ts"
    by (simp add: generateWaveform_def Let_def)
  show "generateWaveform ''sawtooth'' t frequency amplitude
           = map (\<lambda>time. amplitude * (real_mod (2 * pi * frequency * time) (2 * pi) / pi - 1)) t"
    using assms(1,2) sawtooth_sample [of frequency _ amplitude]
    by (simp add: generateWaveform_def Let_def del: times_divide_eq_left)
  have "0 \<le> real k / frequency + s" using assms by simp
  with assms(1)
  have "amplitude
          * (2 * js_rem (2 * pi * frequency * (real k / frequency + s)) (2 * pi) / (2 * pi) - 1)
      = amplitude
          * (real_mod (2 * pi * frequency * (real k / frequency + s)) (2 * pi) / pi - 1)"
    by (rule sawtooth_sample)
  also have "\<dots> = amplitude * (2 * frequency * s - 1)"
    using assms by (simp add: real_mod_period)
  finally show "generateWaveform ''sawtooth'' [real k / frequency + s] frequency amplitude
           = [amplitude * (2 * frequency * s - 1)]"
    by (simp add: generateWaveform_def Let_def)
qed

theorem sawtooth_ramp_witness:
  "(0::real) < 2 \<and> (0::real) \<le> 1 / 8 \<and> (1 / 8 :: real) < 1 / 2
   \<and> generateWaveform ''sawtooth'' [0, 1 / 8] 2 5
     = map (\<lambda>time. 5 * (real_mod (2 * pi * 2 * time) (2 * pi) / pi - 1)) [0, 1 / 8]
   \<and> generateWaveform ''sawtooth'' [real 3 / 2 + 1 / 8] 2 5 = [5 * (2 * 2 * (1 / 8) - 1)]"
proof -
  have h: "(0::real) < 2" "\<forall>time \<in> set [0, 1 / 8 :: real]. 0 \<le> time" "(0::real) \<le> 1 / 8"
    "(1 / 8 :: real) < 1 / 2"
    by simp_all
  from sawtooth_ramp [OF h, of "[]" 5 3] h show ?thesis by blast
qed

text \<open>
  C8: the list of currents \<open>simulateMemristor\<close> returns is as long as the voltage
  sequence, for every object, every sequence (the empty one too) and every \<open>dt\<close>.
\<close>

theorem simulate_length:
  "length (fst (simulateMemristor m V_seq dt)) = length V_seq"
  by (simp add: simulateMemristor_eq length_currents_of)


text \<open>
  C10: in every reachable state of an object with well-formed parameters (positive
  resistances, a domain of positive width), \<open>getCurrent\<close> at zero voltage is zero, for
  each of the six classes.
\<close>

theorem zero_voltage_zero_current:
  assumes "reachable m" and "well_formed m"
  shows "getCurrent (advance_all m vs dt) 0 = 0"
  by (rule getCurrent_zero)

theorem zero_voltage_zero_current_witness:
  "reachable Linear_default \<and> well_formed Linear_default
   \<and> getCurrent (advance_all Linear_default [1, - 1] (1 / 10 ^ 9)) 0 = 0"
  using zero_voltage_zero_current [OF reachable_Linear_default well_formed_Linear_default,
      of "[1, - 1]" "1 / 10 ^ 9"]
    reachable_Linear_default well_formed_Linear_default
  by blast

end
